theory Spec2Isabelle
  imports Complex_Main "HOL-Library.Sublist"
begin

section \<open>JavaScript values used by the components\<close>

subsection \<open>Numbers\<close>

text \<open>
  A JavaScript \<open>number\<close> is an IEEE 754 binary64 value. A finite one is written here as
  the rational it denotes; the two zeros are identified (the components never
  distinguish them). Every arithmetic result is rounded to the nearest representable
  value, ties to the even significand.
\<close>

datatype number = NaN | PosInfinity | NegInfinity | Finite rat

function bit_length :: "int \<Rightarrow> nat" where
  \<comment> \<open>the number of binary digits of a positive integer\<close>
  "bit_length n = (if n \<le> 0 then 0 else Suc (bit_length (n div 2)))"
  by pat_completeness auto
termination
  by (relation "measure nat") auto

declare bit_length.simps [simp del]

definition round_half_even :: "int \<Rightarrow> int \<Rightarrow> int" where
  \<comment> \<open>the integer nearest to \<open>n / d\<close> (for \<open>d > 0\<close>), a tie going to the even one\<close>
  "round_half_even n d =
     (let q = n div d; r = n mod d
      in if 2 * r < d then q
         else if d < 2 * r then q + 1
         else if even q then q else q + 1)"

definition ilog2 :: "int \<Rightarrow> int \<Rightarrow> int" where
  \<comment> \<open>for \<open>n, d > 0\<close>: the \<open>k\<close> with \<open>2^k \<le> n / d < 2^(k+1)\<close>\<close>
  "ilog2 n d =
     (let t = int (bit_length n) - int (bit_length d)
      in if (if 0 \<le> t then d * 2 ^ nat t \<le> n else d \<le> n * 2 ^ nat (- t))
         then t else t - 1)"

definition nearest_double :: "bool \<Rightarrow> int \<Rightarrow> int \<Rightarrow> number" where
  \<comment> \<open>the binary64 value nearest to \<open>\<plusminus> n / d\<close> for \<open>n \<ge> 0\<close>, \<open>d > 0\<close>: a significand \<open>m\<close>
      of 53 bits and an exponent \<open>e\<close>, at least \<open>-1074\<close> (subnormals); the greatest finite
      value is \<open>(2^53 - 1) \<times> 2^971\<close>, and what rounds to \<open>2^1024\<close> or more is infinite\<close>
  "nearest_double negative n d =
     (if n = 0 then Finite 0
      else
        let e = max (ilog2 n d - 52) (- 1074);
            m = (if 0 \<le> e then round_half_even n (d * 2 ^ nat e)
                 else round_half_even (n * 2 ^ nat (- e)) d);
            v = (if 0 \<le> e then of_int (m * 2 ^ nat e)
                 else of_int m / of_int (2 ^ nat (- e)))
        in if 971 < e \<or> (e = 971 \<and> m = 2 ^ 53)
           then (if negative then NegInfinity else PosInfinity)
           else Finite (if negative then - v else v))"

definition to_double :: "rat \<Rightarrow> number" where
  "to_double q = (case quotient_of \<bar>q\<bar> of (n, d) \<Rightarrow> nearest_double (q < 0) n d)"

fun times :: "number \<Rightarrow> number \<Rightarrow> number" where
  \<comment> \<open>the operator \<open>*\<close>\<close>
  "times NaN _ = NaN"
| "times _ NaN = NaN"
| "times (Finite a) (Finite b) = to_double (a * b)"
| "times (Finite a) PosInfinity =
     (if a = 0 then NaN else if 0 < a then PosInfinity else NegInfinity)"
| "times (Finite a) NegInfinity =
     (if a = 0 then NaN else if 0 < a then NegInfinity else PosInfinity)"
| "times PosInfinity (Finite b) =
     (if b = 0 then NaN else if 0 < b then PosInfinity else NegInfinity)"
| "times NegInfinity (Finite b) =
     (if b = 0 then NaN else if 0 < b then NegInfinity else PosInfinity)"
| "times PosInfinity PosInfinity = PosInfinity"
| "times PosInfinity NegInfinity = NegInfinity"
| "times NegInfinity PosInfinity = NegInfinity"
| "times NegInfinity NegInfinity = PosInfinity"

fun Math_floor :: "number \<Rightarrow> number" where
  "Math_floor (Finite q) = Finite (of_int \<lfloor>q\<rfloor>)"
| "Math_floor x = x"

definition Math_pow10 :: "nat \<Rightarrow> number" where
  \<comment> \<open>\<open>Math.pow(10, n)\<close> for a non-negative integer \<open>n\<close>: up to \<open>n = 22\<close> the power is
      representable and the result is exact; beyond, the nearest value is taken\<close>
  "Math_pow10 n = to_double (10 ^ n)"

subsection \<open>Parsing numbers from strings\<close>

definition is_digit :: "char \<Rightarrow> bool" where
  "is_digit c = (let k = (of_char c :: nat) in 48 \<le> k \<and> k \<le> 57)"

definition is_whitespace :: "char \<Rightarrow> bool" where
  \<comment> \<open>the white space among the code units below 256: tab, line feed, vertical tab, form
      feed, carriage return, space, no-break space\<close>
  "is_whitespace c = ((of_char c :: nat) \<in> {9, 10, 11, 12, 13, 32, 160})"

definition digits_value :: "int \<Rightarrow> string \<Rightarrow> int" where
  \<comment> \<open>the value of a string of decimal digits, continuing from \<open>acc\<close>\<close>
  "digits_value acc cs = foldl (\<lambda>a c. 10 * a + (of_char c - 48)) acc cs"

definition exponent_part :: "string \<Rightarrow> int" where
  \<comment> \<open>the value of an \<open>ExponentPart\<close> (\<open>e\<close> or \<open>E\<close>, an optional sign, digits) at the head
      of the string; 0 when there is none\<close>
  "exponent_part cs =
     (case cs of
        [] \<Rightarrow> 0
      | c # r \<Rightarrow>
          if c = CHR ''e'' \<or> c = CHR ''E'' then
            (case r of
               [] \<Rightarrow> 0
             | s # r' \<Rightarrow>
                 if s = CHR ''+'' then digits_value 0 (takeWhile is_digit r')
                 else if s = CHR ''-'' then - digits_value 0 (takeWhile is_digit r')
                 else digits_value 0 (takeWhile is_digit r))
          else 0)"

definition decimal_value :: "bool \<Rightarrow> int \<Rightarrow> int \<Rightarrow> number" where
  \<comment> \<open>the number value of \<open>\<plusminus> n \<times> 10^k\<close>\<close>
  "decimal_value negative n k =
     (if 0 \<le> k then nearest_double negative (n * 10 ^ nat k) 1
      else nearest_double negative n (10 ^ nat (- k)))"

definition unsigned_literal :: "bool \<Rightarrow> string \<Rightarrow> number" where
  \<comment> \<open>the longest prefix that is a \<open>StrUnsignedDecimalLiteral\<close>: \<open>Infinity\<close>, or digits with an
      optional fraction and exponent, or a fraction beginning with the point\<close>
  "unsigned_literal negative cs =
     (if prefix ''Infinity'' cs then (if negative then NegInfinity else PosInfinity)
      else
        let ip = takeWhile is_digit cs; r1 = dropWhile is_digit cs
        in case r1 of
             [] \<Rightarrow> if ip = [] then NaN else decimal_value negative (digits_value 0 ip) 0
           | c # r2 \<Rightarrow>
               if c = CHR ''.'' then
                 (let fp = takeWhile is_digit r2; r3 = dropWhile is_digit r2
                  in if ip = [] \<and> fp = [] then NaN
                     else decimal_value negative (digits_value (digits_value 0 ip) fp)
                            (exponent_part r3 - int (length fp)))
               else if ip = [] then NaN
               else decimal_value negative (digits_value 0 ip) (exponent_part r1))"

definition parseFloat :: "string \<Rightarrow> number" where
  \<comment> \<open>\<open>Number.parseFloat\<close>: leading white space is skipped, an optional sign is read, the
      rest of the string after the literal is ignored; \<open>NaN\<close> when no literal starts it\<close>
  "parseFloat s =
     (case dropWhile is_whitespace s of
        [] \<Rightarrow> NaN
      | c # r \<Rightarrow>
          if c = CHR ''-'' then unsigned_literal True r
          else if c = CHR ''+'' then unsigned_literal False r
          else unsigned_literal False (c # r))"

definition hex_digit :: "char \<Rightarrow> int option" where
  "hex_digit c =
     (let k = (of_char c :: int)
      in if 48 \<le> k \<and> k \<le> 57 then Some (k - 48)
         else if 97 \<le> k \<and> k \<le> 102 then Some (k - 87)
         else if 65 \<le> k \<and> k \<le> 70 then Some (k - 55)
         else None)"

definition hex_value :: "int \<Rightarrow> string \<Rightarrow> int" where
  "hex_value acc cs = foldl (\<lambda>a c. 16 * a + (case hex_digit c of Some v \<Rightarrow> v | None \<Rightarrow> 0)) acc cs"

definition unsigned_integer :: "bool \<Rightarrow> string \<Rightarrow> number" where
  \<comment> \<open>no radix is given: hexadecimal after \<open>0x\<close> or \<open>0X\<close>, decimal otherwise; the digits
      are read as far as they go and \<open>NaN\<close> is the result when there is none\<close>
  "unsigned_integer negative cs =
     (if prefix ''0x'' cs \<or> prefix ''0X'' cs then
        (let z = takeWhile (\<lambda>c. hex_digit c \<noteq> None) (drop 2 cs)
         in if z = [] then NaN else nearest_double negative (hex_value 0 z) 1)
      else
        (let z = takeWhile is_digit cs
         in if z = [] then NaN else nearest_double negative (digits_value 0 z) 1))"

definition parseInt :: "string \<Rightarrow> number" where
  \<comment> \<open>\<open>Number.parseInt\<close> with one argument\<close>
  "parseInt s =
     (case dropWhile is_whitespace s of
        [] \<Rightarrow> NaN
      | c # r \<Rightarrow>
          if c = CHR ''-'' then unsigned_integer True r
          else if c = CHR ''+'' then unsigned_integer False r
          else unsigned_integer False (c # r))"

subsection \<open>Strings\<close>

text \<open>
  A string is the list of its code units. \<open>slice\<close> is \<open>String.prototype.slice\<close> with
  integer arguments: a negative index counts from the end, and both are clamped to the
  string.
\<close>

definition slice :: "string \<Rightarrow> int \<Rightarrow> int \<Rightarrow> string" where
  "slice s start end =
     (let len = int (length s);
          from = (if start < 0 then max (len + start) 0 else min start len);
          to = (if end < 0 then max (len + end) 0 else min end len)
      in take (nat (to - from)) (drop (nat from) s))"

definition slice_from :: "string \<Rightarrow> int \<Rightarrow> string" where
  \<comment> \<open>\<open>s.slice(start)\<close>: the end defaults to the length\<close>
  "slice_from s start = slice s start (int (length s))"

section \<open>lib/utils.ts\<close>

definition truncateAddress :: "string \<Rightarrow> int \<Rightarrow> int \<Rightarrow> string" where
  \<comment> \<open>with whole numbers for \<open>startChars\<close> and \<open>endChars\<close>\<close>
  "truncateAddress address startChars endChars =
     (if address = [] then []
      else if int (length address) \<le> startChars + endChars then address
      else slice address 0 startChars @ ''...'' @ slice_from address (- endChars))"

definition truncateAddress_default :: "string \<Rightarrow> string" where
  \<comment> \<open>the call with one argument: \<open>startChars = 4\<close>, \<open>endChars = 4\<close>\<close>
  "truncateAddress_default address = truncateAddress address 4 4"

section \<open>Collaborators and effects\<close>

text \<open>
  The components reach the wallet provider (\<open>window.solana\<close>), the ledger client
  (\<open>connection\<close> and the token library) and the browser's storage. Their code is not
  part of the repository: each is a parameter of the model, gathered in the record
  \<open>env\<close>, and each may throw. A thrown value is \<open>Inl\<close>, a returned value \<open>Inr\<close>. Within
  one run of a handler a collaborator asked twice with the same arguments answers the
  same.
\<close>

type_synonym exn = string

datatype pubkey = PublicKey string

fun toString :: "pubkey \<Rightarrow> string" where
  "toString (PublicKey s) = s"

datatype instruction =
    MintTo pubkey pubkey pubkey number
  | Transfer pubkey pubkey pubkey number

record transaction =
  instructions :: "instruction list"
  recentBlockhash :: "string option"
  feePayer :: "pubkey option"

datatype notification_type = success | error

datatype request =
    GetOrCreateAssociatedTokenAccount pubkey pubkey pubkey
  | GetLatestBlockhash
  | SignTransaction transaction
  | SendRawTransaction string
  | ConfirmTransaction string
  | LocalStorageSetItem string "string list"
  | GetMint pubkey
  | CreateMint pubkey pubkey pubkey number pubkey
  | Disconnect
  | GetSignaturesForAddress pubkey nat
  | GetParsedTransaction string

text \<open>
  What a handler does is the list of its effects in order: the requests it sends to a
  collaborator, the notifications it shows, the lines it logs and the state setters it
  calls (\<open>'u\<close> is the component's type of setter calls). A handler reads the state of
  the render it was created in, so the state it sees is its argument throughout.
\<close>

datatype 'u event =
    Call request
  | ShowNotification notification_type string
  | ConsoleError string exn
  | SetState 'u

type_synonym ('u, 'a) io = "'u event list \<times> (exn + 'a)"

definition ret :: "'a \<Rightarrow> ('u, 'a) io" where
  "ret x = ([], Inr x)"

definition throw :: "exn \<Rightarrow> ('u, 'a) io" where
  "throw e = ([], Inl e)"

definition lift :: "exn + 'a \<Rightarrow> ('u, 'a) io" where
  \<comment> \<open>a library function that computes without input or output\<close>
  "lift r = ([], r)"

definition perform :: "request \<Rightarrow> exn + 'a \<Rightarrow> ('u, 'a) io" where
  \<comment> \<open>a request to a collaborator, with its outcome\<close>
  "perform c r = ([Call c], r)"

definition emit :: "'u event \<Rightarrow> ('u, unit) io" where
  "emit ev = ([ev], Inr ())"

definition bind :: "('u, 'a) io \<Rightarrow> ('a \<Rightarrow> ('u, 'b) io) \<Rightarrow> ('u, 'b) io" where
  \<comment> \<open>sequencing: a throw skips what follows\<close>
  "bind m f =
     (case m of
        (t, Inl e) \<Rightarrow> (t, Inl e)
      | (t, Inr x) \<Rightarrow> (case f x of (t', r) \<Rightarrow> (t @ t', r)))"

definition try_catch :: "('u, 'a) io \<Rightarrow> (exn \<Rightarrow> 'u event list) \<Rightarrow> 'u event list" where
  \<comment> \<open>\<open>try { ... } catch (error) { ... }\<close> around a block whose value is not used\<close>
  "try_catch m handler =
     (case m of
        (t, Inr _) \<Rightarrow> t
      | (t, Inl e) \<Rightarrow> t @ handler e)"

definition final_state :: "('u \<Rightarrow> 's \<Rightarrow> 's) \<Rightarrow> 'u event list \<Rightarrow> 's \<Rightarrow> 's" where
  \<comment> \<open>the state after the setter calls of a trace, in order\<close>
  "final_state app t s = fold (\<lambda>ev. case ev of SetState u \<Rightarrow> app u | _ \<Rightarrow> id) t s"

definition notifications :: "'u event list \<Rightarrow> (notification_type \<times> string) list" where
  "notifications t =
     concat (map (\<lambda>ev. case ev of ShowNotification k m \<Rightarrow> [(k, m)] | _ \<Rightarrow> []) t)"

definition requests :: "'u event list \<Rightarrow> request list" where
  "requests t = concat (map (\<lambda>ev. case ev of Call c \<Rightarrow> [c] | _ \<Rightarrow> []) t)"

datatype TransactionError = ErrorObject | ErrorString string

record env =
  newPublicKey :: "string \<Rightarrow> exn + pubkey"
  windowSolana :: bool
  getOrCreateAssociatedTokenAccount :: "pubkey \<Rightarrow> pubkey \<Rightarrow> exn + pubkey"
  amountRejected :: "number \<Rightarrow> exn option"
  getLatestBlockhash :: "exn + string"
  signTransaction :: "transaction \<Rightarrow> exn + string"
  serialize :: "string \<Rightarrow> exn + string"
  sendRawTransaction :: "string \<Rightarrow> exn + string"
  confirmTransaction :: "string \<Rightarrow> exn + TransactionError option"
  localStorageSetItem :: "string \<Rightarrow> string list \<Rightarrow> exn option"
  getMint :: "pubkey \<Rightarrow> exn + nat"
  keypairGenerate :: pubkey
  createMint :: "pubkey \<Rightarrow> pubkey \<Rightarrow> pubkey \<Rightarrow> number \<Rightarrow> pubkey \<Rightarrow> exn + pubkey"
  disconnect :: "exn option"

text \<open>
  \<open>newPublicKey\<close> is the constructor \<open>new PublicKey(string)\<close>, which throws on a string
  that is no address. \<open>windowSolana\<close> says whether the provider is injected.
  \<open>getOrCreateAssociatedTokenAccount env mint owner\<close> is the address of the account.
  \<open>amountRejected\<close> is the library's instruction encoder refusing an amount it cannot
  encode. \<open>serialize\<close> is the method of the signed transaction.
  \<open>confirmTransaction\<close> throws when the confirmation cannot be awaited; otherwise it
  resolves to the error the ledger reports for the transaction (\<open>null\<close>, an object or a
  string), a value the handlers do not look at.
  \<open>localStorageSetItem\<close> and \<open>disconnect\<close> return nothing: \<open>Some\<close> is the value they throw.
  \<open>disconnect\<close> is what the call itself throws; the promise it returns is not awaited,
  so a later rejection does not reach the component.
\<close>

definition throws :: "exn option \<Rightarrow> exn + unit" where
  "throws r = (case r of Some e \<Rightarrow> Inl e | None \<Rightarrow> Inr ())"

definition createMintToInstruction ::
    "env \<Rightarrow> pubkey \<Rightarrow> pubkey \<Rightarrow> pubkey \<Rightarrow> number \<Rightarrow> exn + instruction" where
  "createMintToInstruction env mint destination authority amt =
     (case amountRejected env amt of
        Some e \<Rightarrow> Inl e
      | None \<Rightarrow> Inr (MintTo mint destination authority amt))"

definition createTransferInstruction ::
    "env \<Rightarrow> pubkey \<Rightarrow> pubkey \<Rightarrow> pubkey \<Rightarrow> number \<Rightarrow> exn + instruction" where
  "createTransferInstruction env source destination owner amt =
     (case amountRejected env amt of
        Some e \<Rightarrow> Inl e
      | None \<Rightarrow> Inr (Transfer source destination owner amt))"

definition submit ::
    "env \<Rightarrow> instruction \<Rightarrow> pubkey \<Rightarrow> ('u, TransactionError option) io" where
  \<comment> \<open>the steps both the mint and the send handler take with their instruction: the
      provider is checked, a fresh blockhash and the fee payer are set, the wallet signs,
      the signed bytes are sent and the confirmation is awaited\<close>
  "submit env ix payer =
     bind (if windowSolana env then ret () else throw ''Wallet not connected'') (\<lambda>_.
     bind (perform GetLatestBlockhash (getLatestBlockhash env)) (\<lambda>blockhash.
     let tx = \<lparr>instructions = [ix], recentBlockhash = Some blockhash, feePayer = Some payer\<rparr>
     in bind (perform (SignTransaction tx) (signTransaction env tx)) (\<lambda>signed.
        bind (lift (serialize env signed)) (\<lambda>raw.
        bind (perform (SendRawTransaction raw) (sendRawTransaction env raw)) (\<lambda>signature.
        perform (ConfirmTransaction signature) (confirmTransaction env signature))))))"

section \<open>components/mint-token.tsx\<close>

record loading_state =
  isLoading :: bool

record amount_state = loading_state +
  amount :: string

record mint_state = amount_state +
  tokenMintAddress :: string
  tokenDecimals :: nat
  recentTokens :: "string list"

datatype mint_update =
    SetTokenMintAddress string
  | SetAmount string
  | SetIsLoading bool
  | SetTokenDecimals nat
  | SetRecentTokens "string list"

fun mint_apply :: "mint_update \<Rightarrow> mint_state \<Rightarrow> mint_state" where
  "mint_apply (SetTokenMintAddress a) s = s\<lparr>tokenMintAddress := a\<rparr>"
| "mint_apply (SetAmount a) s = s\<lparr>amount := a\<rparr>"
| "mint_apply (SetIsLoading b) s = s\<lparr>isLoading := b\<rparr>"
| "mint_apply (SetTokenDecimals d) s = s\<lparr>tokenDecimals := d\<rparr>"
| "mint_apply (SetRecentTokens ts) s = s\<lparr>recentTokens := ts\<rparr>"

definition mint_initial :: mint_state where
  \<comment> \<open>the \<open>useState\<close> defaults\<close>
  "mint_initial =
     \<lparr>isLoading = False, amount = [], tokenMintAddress = [], tokenDecimals = 9,
      recentTokens = []\<rparr>"

definition fetchTokenDecimals :: "env \<Rightarrow> mint_state \<Rightarrow> mint_update event list" where
  \<comment> \<open>the effect that runs after the mint address has changed\<close>
  "fetchTokenDecimals env s =
     (if tokenMintAddress s = [] \<or> length (tokenMintAddress s) < 32 then []
      else
        try_catch
          (bind (lift (newPublicKey env (tokenMintAddress s))) (\<lambda>key.
           bind (perform (GetMint key) (getMint env key)) (\<lambda>mintInfo_decimals.
           emit (SetState (SetTokenDecimals mintInfo_decimals)))))
          (\<lambda>e. [ConsoleError ''Error fetching token info:'' e]))"

definition enterMintAddress :: "env \<Rightarrow> string \<Rightarrow> mint_state \<Rightarrow> mint_state" where
  \<comment> \<open>the address field changes (or a recent token is clicked): the setter runs, then the
      effect on the new state\<close>
  "enterMintAddress env a s =
     (let s' = mint_apply (SetTokenMintAddress a) s
      in final_state mint_apply (fetchTokenDecimals env s') s')"

definition amountToMint :: "mint_state \<Rightarrow> number" where
  "amountToMint s = Math_floor (times (parseFloat (amount s)) (Math_pow10 (tokenDecimals s)))"

definition saveRecentToken :: "env \<Rightarrow> mint_state \<Rightarrow> (mint_update, unit) io" where
  "saveRecentToken env s =
     (if tokenMintAddress s \<notin> set (recentTokens s) then
        (let updatedTokens = take 5 (tokenMintAddress s # recentTokens s)
         in bind (emit (SetState (SetRecentTokens updatedTokens))) (\<lambda>_.
            perform (LocalStorageSetItem ''recentTokens'' updatedTokens)
              (throws (localStorageSetItem env ''recentTokens'' updatedTokens))))
      else ret ())"

definition mintToken_try :: "env \<Rightarrow> string \<Rightarrow> mint_state \<Rightarrow> (mint_update, unit) io" where
  \<comment> \<open>the \<open>try\<close> block\<close>
  "mintToken_try env walletAddress s =
     bind (lift (newPublicKey env (tokenMintAddress s))) (\<lambda>mintPublicKey.
     bind (lift (newPublicKey env walletAddress)) (\<lambda>userPublicKey.
     bind (perform (GetOrCreateAssociatedTokenAccount userPublicKey mintPublicKey userPublicKey)
             (getOrCreateAssociatedTokenAccount env mintPublicKey userPublicKey)) (\<lambda>tokenAccount.
     bind (lift (createMintToInstruction env mintPublicKey tokenAccount userPublicKey
             (amountToMint s))) (\<lambda>ix.
     bind (submit env ix userPublicKey) (\<lambda>_.
     bind (saveRecentToken env s) (\<lambda>_.
     bind (emit (ShowNotification success (''Successfully minted '' @ amount s @ '' tokens!''))) (\<lambda>_.
     emit (SetState (SetAmount [])))))))))"

definition mintToken :: "env \<Rightarrow> string \<Rightarrow> mint_state \<Rightarrow> mint_update event list" where
  "mintToken env walletAddress s =
     (if tokenMintAddress s = [] \<or> amount s = [] then
        [ShowNotification error ''Please fill in all fields'']
      else
        [SetState (SetIsLoading True)] @
        try_catch (mintToken_try env walletAddress s)
          (\<lambda>e. [ConsoleError ''Error minting token:'' e,
                ShowNotification error
                  ''Failed to mint tokens. Make sure you are the mint authority.'']) @
        [SetState (SetIsLoading False)])"

section \<open>components/send-token.tsx\<close>

record TokenBalance =
  mint :: string
  balance :: number
  decimals :: nat
  symbol :: "string option"

record send_state = amount_state +
  recipientAddress :: string
  selectedToken :: string
  tokenBalances :: "TokenBalance list"
  isLoadingTokens :: bool

datatype send_update =
    SetRecipientAddress string
  | SetSelectedToken string
  | SetSendAmount string
  | SetSendIsLoading bool

fun send_apply :: "send_update \<Rightarrow> send_state \<Rightarrow> send_state" where
  "send_apply (SetRecipientAddress a) s = s\<lparr>recipientAddress := a\<rparr>"
| "send_apply (SetSelectedToken a) s = s\<lparr>selectedToken := a\<rparr>"
| "send_apply (SetSendAmount a) s = s\<lparr>amount := a\<rparr>"
| "send_apply (SetSendIsLoading b) s = s\<lparr>isLoading := b\<rparr>"

definition amountToSend :: "send_state \<Rightarrow> TokenBalance \<Rightarrow> number" where
  "amountToSend s selectedTokenInfo =
     Math_floor (times (parseFloat (amount s)) (Math_pow10 (decimals selectedTokenInfo)))"

definition sendToken_try :: "env \<Rightarrow> string \<Rightarrow> send_state \<Rightarrow> (send_update, unit) io" where
  \<comment> \<open>the \<open>try\<close> block\<close>
  "sendToken_try env walletAddress s =
     bind (lift (newPublicKey env (selectedToken s))) (\<lambda>mintPublicKey.
     bind (lift (newPublicKey env walletAddress)) (\<lambda>senderPublicKey.
     bind (lift (newPublicKey env (recipientAddress s))) (\<lambda>recipientPublicKey.
     bind (case find (\<lambda>t. mint t = selectedToken s) (tokenBalances s) of
             None \<Rightarrow> throw ''Selected token not found in your balances''
           | Some t \<Rightarrow> ret t) (\<lambda>selectedTokenInfo.
     bind (perform (GetOrCreateAssociatedTokenAccount senderPublicKey mintPublicKey senderPublicKey)
             (getOrCreateAssociatedTokenAccount env mintPublicKey senderPublicKey))
       (\<lambda>senderTokenAccount.
     bind (perform
             (GetOrCreateAssociatedTokenAccount senderPublicKey mintPublicKey recipientPublicKey)
             (getOrCreateAssociatedTokenAccount env mintPublicKey recipientPublicKey))
       (\<lambda>recipientTokenAccount.
     bind (lift (createTransferInstruction env senderTokenAccount recipientTokenAccount
             senderPublicKey (amountToSend s selectedTokenInfo))) (\<lambda>ix.
     bind (submit env ix senderPublicKey) (\<lambda>_.
     bind (emit (ShowNotification success (''Successfully sent '' @ amount s @ '' tokens!''))) (\<lambda>_.
     bind (emit (SetState (SetSendAmount []))) (\<lambda>_.
     emit (SetState (SetRecipientAddress []))))))))))))"

definition sendToken :: "env \<Rightarrow> string \<Rightarrow> send_state \<Rightarrow> send_update event list" where
  "sendToken env walletAddress s =
     (if selectedToken s = [] \<or> recipientAddress s = [] \<or> amount s = [] then
        [ShowNotification error ''Please fill in all fields'']
      else
        [SetState (SetSendIsLoading True)] @
        try_catch (sendToken_try env walletAddress s)
          (\<lambda>e. [ConsoleError ''Error sending token:'' e,
                ShowNotification error
                  ''Failed to send tokens. Please check the recipient address and your balance.'']) @
        [SetState (SetSendIsLoading False)])"

section \<open>components/create-token.tsx\<close>

record create_state = loading_state +
  tokenName :: string
  tokenSymbol :: string
  decimals :: string
  createdTokenMint :: "string option"

datatype create_update =
    SetTokenName string
  | SetTokenSymbol string
  | SetDecimals string
  | SetCreateIsLoading bool
  | SetCreatedTokenMint "string option"

fun create_apply :: "create_update \<Rightarrow> create_state \<Rightarrow> create_state" where
  "create_apply (SetTokenName a) s = s\<lparr>tokenName := a\<rparr>"
| "create_apply (SetTokenSymbol a) s = s\<lparr>tokenSymbol := a\<rparr>"
| "create_apply (SetDecimals a) s = s\<lparr>decimals := a\<rparr>"
| "create_apply (SetCreateIsLoading b) s = s\<lparr>isLoading := b\<rparr>"
| "create_apply (SetCreatedTokenMint m) s = s\<lparr>createdTokenMint := m\<rparr>"

definition createToken_try :: "env \<Rightarrow> string \<Rightarrow> create_state \<Rightarrow> (create_update, unit) io" where
  \<comment> \<open>the \<open>try\<close> block; the signer object handed to \<open>createMint\<close> is used inside the
      library only\<close>
  "createToken_try env walletAddress s =
     (let mintAccount = keypairGenerate env
      in bind (lift (newPublicKey env walletAddress)) (\<lambda>mintAuthority.
         bind (lift (newPublicKey env walletAddress)) (\<lambda>freezeAuthority.
         bind (lift (newPublicKey env walletAddress)) (\<lambda>payer.
         bind (perform
                 (CreateMint payer mintAuthority freezeAuthority (parseInt (decimals s)) mintAccount)
                 (createMint env payer mintAuthority freezeAuthority (parseInt (decimals s))
                    mintAccount)) (\<lambda>newMint.
         bind (emit (SetState (SetCreatedTokenMint (Some (toString newMint))))) (\<lambda>_.
         emit (ShowNotification success ''Token created successfully!'')))))))"

definition createToken :: "env \<Rightarrow> string \<Rightarrow> create_state \<Rightarrow> create_update event list" where
  "createToken env walletAddress s =
     (if tokenName s = [] \<or> tokenSymbol s = [] \<or> decimals s = [] then
        [ShowNotification error ''Please fill in all fields'']
      else
        [SetState (SetCreateIsLoading True)] @
        try_catch (createToken_try env walletAddress s)
          (\<lambda>e. [ConsoleError ''Error creating token:'' e,
                ShowNotification error ''Failed to create token. Please try again.'']) @
        [SetState (SetCreateIsLoading False)])"

section \<open>components/wallet-connect.tsx\<close>

datatype wallet_update = SetWalletAddress "string option"

fun wallet_apply :: "wallet_update \<Rightarrow> string option \<Rightarrow> string option" where
  \<comment> \<open>the session address, held by the page and set through the \<open>setWalletAddress\<close> prop\<close>
  "wallet_apply (SetWalletAddress a) _ = a"

definition disconnectWallet :: "env \<Rightarrow> wallet_update event list" where
  "disconnectWallet env =
     try_catch
       (bind (if windowSolana env then perform Disconnect (throws (disconnect env))
              else ret ()) (\<lambda>_.
        bind (emit (SetState (SetWalletAddress None))) (\<lambda>_.
        emit (ShowNotification success ''Wallet disconnected''))))
       (\<lambda>e. [ConsoleError ''Error disconnecting wallet:'' e,
             ShowNotification error ''Failed to disconnect wallet''])"

section \<open>components/transaction-history.tsx\<close>

text \<open>
  What the ledger returns: a signature entry carries \<open>err\<close>, which is \<open>null\<close>, an object or
  a string; a parsed transaction is \<open>null\<close> or carries \<open>meta\<close> (\<open>null\<close> or an object, of
  which only the presence is read) and its instructions, of each of which only
  \<open>programId?.toString()\<close> is read.
\<close>

fun truthy :: "TransactionError option \<Rightarrow> bool" where
  "truthy None = False"
| "truthy (Some ErrorObject) = True"
| "truthy (Some (ErrorString s)) = (s \<noteq> [])"

record ConfirmedSignatureInfo =
  sig_signature :: string
  sig_blockTime :: "int option"
  sig_slot :: nat
  sig_err :: "TransactionError option"

record ParsedInstruction =
  programId :: "string option"

record ParsedTransactionWithMeta =
  meta :: bool
  message_instructions :: "ParsedInstruction list"

datatype status = confirmed | failed

record Transaction =
  signature :: string
  blockTime :: int
  slot :: nat
  type :: string
  status :: status

definition transactionType :: "ParsedTransactionWithMeta option \<Rightarrow> string" where
  \<comment> \<open>the variable \<open>type\<close>; the guard is \<open>tx?.meta && instructions\<close>, and an array, even an
      empty one, counts as true\<close>
  "transactionType tx =
     (case tx of
        None \<Rightarrow> ''Unknown''
      | Some t \<Rightarrow>
          if meta t then
            if list_ex (\<lambda>ix. programId ix = Some ''TokenkegQfeZyiNwAJbNbGKPFXCWuBvf9Ss623VQ5DA'')
                 (message_instructions t)
            then ''Token''
            else if list_ex (\<lambda>ix. programId ix = Some ''11111111111111111111111111111111'')
                      (message_instructions t)
            then ''SOL Transfer''
            else ''Unknown''
          else ''Unknown'')"

definition toTransaction ::
    "ConfirmedSignatureInfo \<Rightarrow> ParsedTransactionWithMeta option \<Rightarrow> Transaction" where
  \<comment> \<open>the body of the function mapped over the signatures, after its request\<close>
  "toTransaction sig tx =
     \<lparr>signature = sig_signature sig,
      blockTime = (case sig_blockTime sig of None \<Rightarrow> 0 | Some t \<Rightarrow> t),
      slot = sig_slot sig,
      type = transactionType tx,
      status = (if truthy (sig_err sig) then failed else confirmed)\<rparr>"

record ledger =
  getSignaturesForAddress :: "pubkey \<Rightarrow> nat \<Rightarrow> exn + ConfirmedSignatureInfo list"
  getParsedTransaction :: "string \<Rightarrow> exn + ParsedTransactionWithMeta option"

datatype history_update = SetTransactions "Transaction list" | SetHistoryIsLoading bool

fun sequence :: "(exn + 'a) list \<Rightarrow> exn + 'a list" where
  \<comment> \<open>\<open>Promise.all\<close>: the values in order, or the first rejection\<close>
  "sequence [] = Inr []"
| "sequence (Inl e # _) = Inl e"
| "sequence (Inr x # rs) = (case sequence rs of Inl e \<Rightarrow> Inl e | Inr xs \<Rightarrow> Inr (x # xs))"

definition fetchTransactions_try ::
    "env \<Rightarrow> ledger \<Rightarrow> string \<Rightarrow> (history_update, unit) io" where
  "fetchTransactions_try env l walletAddress =
     bind (lift (newPublicKey env walletAddress)) (\<lambda>publicKey.
     bind (perform (GetSignaturesForAddress publicKey 10) (getSignaturesForAddress l publicKey 10))
       (\<lambda>signatures.
     bind (map (\<lambda>sig. Call (GetParsedTransaction (sig_signature sig))) signatures,
           sequence (map (\<lambda>sig.
             case getParsedTransaction l (sig_signature sig) of
               Inl e \<Rightarrow> Inl e
             | Inr tx \<Rightarrow> Inr (toTransaction sig tx)) signatures)) (\<lambda>txs.
     emit (SetState (SetTransactions txs)))))"

definition fetchTransactions :: "env \<Rightarrow> ledger \<Rightarrow> string \<Rightarrow> history_update event list" where
  "fetchTransactions env l walletAddress =
     (if walletAddress = [] then []
      else
        [SetState (SetHistoryIsLoading True)] @
        try_catch (fetchTransactions_try env l walletAddress)
          (\<lambda>e. [ConsoleError ''Error fetching transactions:'' e]) @
        [SetState (SetHistoryIsLoading False)])"

section \<open>Vocabulary of the properties\<close>






definition has_meta :: "ParsedTransactionWithMeta option \<Rightarrow> bool" where
  \<comment> \<open>the ledger returned the transaction, and with its metadata\<close>
  "has_meta tx = (case tx of None \<Rightarrow> False | Some t \<Rightarrow> meta t)"

definition has_instruction_of :: "string \<Rightarrow> ParsedTransactionWithMeta option \<Rightarrow> bool" where
  \<comment> \<open>one of the instructions of the transaction names the program\<close>
  "has_instruction_of p tx =
     (case tx of
        None \<Rightarrow> False
      | Some t \<Rightarrow> list_ex (\<lambda>ix. programId ix = Some p) (message_instructions t))"

definition token_program :: string where
  "token_program = ''TokenkegQfeZyiNwAJbNbGKPFXCWuBvf9Ss623VQ5DA''"

definition system_program :: string where
  "system_program = ''11111111111111111111111111111111''"

section \<open>Concrete collaborators and inputs\<close>

text \<open>The inputs at which the properties below are exercised.\<close>

definition walletA :: string where
  "walletA = ''7xKXtg2CW87d97TXJSDpbD5jBkheTqA83TZRuJosgAsU''"

definition walletB :: string where
  "walletB = ''9WzDXwBbmkg8ZTbNMqUxvQRAyrZzDsGYdLVL9zYtAWWM''"

definition mintA :: string where
  "mintA = ''EPjFWdd5AufqSSqeM2qN1xzybapC8G4wEGGkZwyTDt1v''"

definition mintB :: string where
  "mintB = ''Es9vMFrzaCERmJfrF4H2FYD4KCoNkY11McCe8BenwNYB''"

definition env_ok :: env where
  \<comment> \<open>every collaborator answers; the encoder takes the non-negative finite amounts; the
      mint \<open>mintA\<close> has 6 decimals and no other mint is found\<close>
  "env_ok =
     \<lparr>newPublicKey = (\<lambda>s. Inr (PublicKey s)),
      windowSolana = True,
      getOrCreateAssociatedTokenAccount = (\<lambda>m owner. Inr (PublicKey (''ata-'' @ toString owner))),
      amountRejected =
        (\<lambda>a. case a of
                Finite q \<Rightarrow> if q < 0 then Some ''RangeError'' else None
              | _ \<Rightarrow> Some ''RangeError''),
      getLatestBlockhash = Inr ''blockhash'',
      signTransaction = (\<lambda>t. Inr ''signed''),
      serialize = (\<lambda>t. Inr ''bytes''),
      sendRawTransaction = (\<lambda>t. Inr ''signature''),
      confirmTransaction = (\<lambda>t. Inr None),
      localStorageSetItem = (\<lambda>k v. None),
      getMint = (\<lambda>k. if k = PublicKey mintA then Inr 6 else Inl ''TokenAccountNotFoundError''),
      keypairGenerate = PublicKey mintB,
      createMint = (\<lambda>payer a f d k. Inr k),
      disconnect = None\<rparr>"

definition env_rejecting :: env where
  \<comment> \<open>as \<open>env_ok\<close>, but the user declines every signature in the wallet\<close>
  "env_rejecting = env_ok\<lparr>signTransaction := (\<lambda>t. Inl ''User rejected the request.'')\<rparr>"


definition env_failed_on_chain :: env where
  \<comment> \<open>as \<open>env_ok\<close>, but the ledger reports every confirmed transaction as failed\<close>
  "env_failed_on_chain = env_ok\<lparr>confirmTransaction := (\<lambda>t. Inr (Some ErrorObject))\<rparr>"


definition env_disconnect_fails :: env where
  "env_disconnect_fails = env_ok\<lparr>disconnect := Some ''provider error''\<rparr>"

definition mint_form :: "string \<Rightarrow> nat \<Rightarrow> string list \<Rightarrow> string \<Rightarrow> mint_state" where
  \<comment> \<open>the mint form with an address, its decimals, the recent tokens and an amount\<close>
  "mint_form a d recent amt =
     \<lparr>isLoading = False, amount = amt, tokenMintAddress = a, tokenDecimals = d,
      recentTokens = recent\<rparr>"

definition send_form :: "nat \<Rightarrow> string \<Rightarrow> send_state" where
  \<comment> \<open>the send form: the sender holds 10 of the token \<open>mintA\<close>, which has \<open>d\<close> decimals\<close>
  "send_form d amt =
     \<lparr>isLoading = False, amount = amt, recipientAddress = walletB, selectedToken = mintA,
      tokenBalances = [\<lparr>mint = mintA, balance = Finite 10, decimals = d, symbol = None\<rparr>],
      isLoadingTokens = False\<rparr>"

definition create_form :: "string \<Rightarrow> string \<Rightarrow> string \<Rightarrow> create_state" where
  "create_form nm sy dc =
     \<lparr>isLoading = False, tokenName = nm, tokenSymbol = sy, decimals = dc,
      createdTokenMint = None\<rparr>"

definition mintC :: string where
  "mintC = ''So11111111111111111111111111111111111111112''"

definition mintD :: string where
  "mintD = ''mSoLzYCxHdYgdzU16g5QSh3i5K3z3KZK7ytfqcJm7So''"

definition mintE :: string where
  "mintE = ''DezXAZ8z7PnrnRJjz3wXBoRgixCa6xjnB7YaB1pPB263''"

definition mintF :: string where
  "mintF = ''4k3Dyjzvzp8eMZWUXbBCjEvwSkkk59S5iCNLY3QrkX6R''"

definition five_tokens :: "string list" where
  "five_tokens = [mintA, mintB, mintC, mintD, mintE]"

definition ledger_two :: ledger where
  \<comment> \<open>two signatures: a token transaction that failed, and a transfer whose metadata the
      ledger no longer has\<close>
  "ledger_two =
     \<lparr>getSignaturesForAddress = (\<lambda>k n. Inr
        [\<lparr>sig_signature = ''sig-1'', sig_blockTime = Some 1700000000, sig_slot = 2,
          sig_err = Some ErrorObject\<rparr>,
         \<lparr>sig_signature = ''sig-2'', sig_blockTime = None, sig_slot = 1, sig_err = None\<rparr>]),
      getParsedTransaction = (\<lambda>sg.
        if sg = ''sig-1'' then
          Inr (Some \<lparr>meta = True,
                     message_instructions = [\<lparr>programId = Some system_program\<rparr>,
                                             \<lparr>programId = Some token_program\<rparr>]\<rparr>)
        else
          Inr (Some \<lparr>meta = False,
                     message_instructions = [\<lparr>programId = Some token_program\<rparr>]\<rparr>))\<rparr>"

section \<open>Properties\<close>

subsection \<open>Strings and the address abbreviation\<close>

lemma slice_take: "0 \<le> k \<Longrightarrow> slice s 0 k = take (nat k) s"
  by (auto simp: slice_def Let_def min_def)

lemma slice_from_last: "0 < k \<Longrightarrow> slice_from s (- k) = drop (length s - nat k) s"
proof -
  assume k: "0 < k"
  have "nat (if int (length s) \<le> k then 0 else int (length s) - k) = length s - nat k"
    using k by auto
  then show ?thesis
    using k by (simp add: slice_from_def slice_def Let_def max_def)
qed

lemma truncateAddress_positive:
  assumes "0 \<le> startChars" and "0 < endChars"
  shows "truncateAddress address startChars endChars =
     (if address = [] then []
      else if int (length address) \<le> startChars + endChars then address
      else take (nat startChars) address @ ''...'' @
           drop (length address - nat endChars) address)"
  using assms by (simp add: truncateAddress_def slice_take slice_from_last)

lemma truncateAddress_default_length:
  "length (truncateAddress_default address) \<le> max (length address) 11"
  by (auto simp: truncateAddress_default_def truncateAddress_def slice_take slice_from_last)

text \<open>
  C10. \<open>truncateAddress\<close> is to return the first \<open>startChars\<close> characters, the three
  dots and the last \<open>endChars\<close> characters of an address longer than
  \<open>startChars + endChars\<close>. With \<open>endChars = 0\<close> the last zero characters are the empty
  string, so \<open>abcdefghij\<close> should become \<open>abcd...\<close>; the function returns the whole
  address after the dots, because \<open>slice(-0)\<close> is \<open>slice(0)\<close>. (For \<open>endChars > 0\<close> the
  description holds: \<open>truncateAddress_positive\<close>, and with the defaults the result is never
  longer than \<open>max (length address) 11\<close>: \<open>truncateAddress_default_length\<close>.)
\<close>

theorem truncateAddress_zero_endChars:
  "truncateAddress ''abcdefghij'' 4 0 = ''abcd...abcdefghij''
   \<and> take 4 ''abcdefghij'' @ ''...'' @ drop (length ''abcdefghij'' - 0) ''abcdefghij'' = ''abcd...''"
  by (simp add: truncateAddress_def slice_def slice_from_def)

subsection \<open>Sequencing\<close>

lemma bind_assoc: "bind (bind m f) g = bind m (\<lambda>x. bind (f x) g)"
  by (auto simp: bind_def split: prod.splits sum.splits)

lemma bind_if: "bind (if c then a else b) f = (if c then bind a f else bind b f)"
  by simp

lemma bind_ret: "bind (ret x) f = f x"
  by (simp add: bind_def ret_def split: prod.splits)

lemma bind_throw: "bind (throw e) f = throw e"
  by (simp add: bind_def throw_def)

lemma try_bind_lift:
  "try_catch (bind (lift r) f) h = (case r of Inl e \<Rightarrow> h e | Inr x \<Rightarrow> try_catch (f x) h)"
  by (simp add: try_catch_def bind_def lift_def split: prod.splits sum.splits)

lemma try_bind_perform:
  "try_catch (bind (perform c r) f) h =
     Call c # (case r of Inl e \<Rightarrow> h e | Inr x \<Rightarrow> try_catch (f x) h)"
  by (simp add: try_catch_def bind_def perform_def split: prod.splits sum.splits)

lemma try_bind_emit: "try_catch (bind (emit ev) f) h = ev # try_catch (f ()) h"
  by (simp add: try_catch_def bind_def emit_def split: prod.splits sum.splits)

lemma try_perform:
  "try_catch (perform c r) h = Call c # (case r of Inl e \<Rightarrow> h e | Inr x \<Rightarrow> [])"
  by (simp add: try_catch_def perform_def split: prod.splits sum.splits)

lemma try_emit: "try_catch (emit ev) h = [ev]"
  by (simp add: try_catch_def emit_def)

lemma try_ret: "try_catch (ret x) h = []"
  by (simp add: try_catch_def ret_def)

lemma try_throw: "try_catch (throw e) h = h e"
  by (simp add: try_catch_def throw_def)

lemma throws_case:
  "(case throws r of Inl e \<Rightarrow> a e | Inr x \<Rightarrow> b) = (case r of Some e \<Rightarrow> a e | None \<Rightarrow> b)"
  by (simp add: throws_def split: option.splits)

lemmas io_simps = bind_assoc bind_if bind_ret bind_throw try_bind_lift try_bind_perform
  try_bind_emit try_perform try_emit try_ret try_throw throws_case Let_def

lemmas mint_simps = mintToken_def mintToken_try_def submit_def saveRecentToken_def
  createMintToInstruction_def io_simps

lemmas send_simps = sendToken_def sendToken_try_def submit_def createTransferInstruction_def
  io_simps

lemmas create_simps = createToken_def createToken_try_def io_simps

lemma try_bind_pair:
  "try_catch (bind (t, r) f) h = t @ (case r of Inl e \<Rightarrow> h e | Inr x \<Rightarrow> try_catch (f x) h)"
  by (simp add: try_catch_def bind_def split: prod.splits sum.splits)


subsection \<open>The concrete inputs\<close>

lemma mint_form_fields:
  "isLoading (mint_form a d r x) = False"
  "amount (mint_form a d r x) = x"
  "tokenMintAddress (mint_form a d r x) = a"
  "tokenDecimals (mint_form a d r x) = d"
  "recentTokens (mint_form a d r x) = r"
  "mint_form a d r x\<lparr>isLoading := False\<rparr> = mint_form a d r x"
  by (simp_all add: mint_form_def)

lemma send_form_fields:
  "isLoading (send_form d x) = False"
  "amount (send_form d x) = x"
  "recipientAddress (send_form d x) = walletB"
  "selectedToken (send_form d x) = mintA"
  "tokenBalances (send_form d x) =
     [\<lparr>mint = mintA, balance = Finite 10, decimals = d, symbol = None\<rparr>]"
  "send_form d x\<lparr>isLoading := False\<rparr> = send_form d x"
  by (simp_all add: send_form_def)

lemma create_form_fields:
  "isLoading (create_form n y d) = False"
  "tokenName (create_form n y d) = n"
  "tokenSymbol (create_form n y d) = y"
  "decimals (create_form n y d) = d"
  "createdTokenMint (create_form n y d) = None"
  by (simp_all add: create_form_def)

lemma addresses_not_empty:
  "walletA \<noteq> []" "walletB \<noteq> []" "mintA \<noteq> []" "mintB \<noteq> []" "mintC \<noteq> []"
  "mintD \<noteq> []" "mintE \<noteq> []" "mintF \<noteq> []"
  by (simp_all add: walletA_def walletB_def mintA_def mintB_def mintC_def mintD_def mintE_def
        mintF_def)

lemma mints_distinct: "distinct [mintA, mintB, mintC, mintD, mintE, mintF]"
  by (simp add: mintA_def mintB_def mintC_def mintD_def mintE_def mintF_def)

lemma env_ok_fields:
  "newPublicKey env_ok a = Inr (PublicKey a)"
  "windowSolana env_ok"
  "getOrCreateAssociatedTokenAccount env_ok m owner = Inr (PublicKey (''ata-'' @ toString owner))"
  "amountRejected env_ok (Finite q) = (if q < 0 then Some ''RangeError'' else None)"
  "getLatestBlockhash env_ok = Inr ''blockhash''"
  "signTransaction env_ok t = Inr ''signed''"
  "serialize env_ok b = Inr ''bytes''"
  "sendRawTransaction env_ok b = Inr ''signature''"
  "confirmTransaction env_ok g = Inr None"
  "localStorageSetItem env_ok k v = None"
  "getMint env_ok (PublicKey a) = (if a = mintA then Inr 6 else Inl ''TokenAccountNotFoundError'')"
  "keypairGenerate env_ok = PublicKey mintB"
  "createMint env_ok payer au fr dc kp = Inr kp"
  "disconnect env_ok = None"
  by (simp_all add: env_ok_def)

lemmas example_simps = mint_form_fields send_form_fields create_form_fields addresses_not_empty
  env_ok_fields

subsection \<open>Amount scaling\<close>

text \<open>
  C1. The base-unit amount put into the mint and the transfer instruction is to be
  \<open>floor (displayAmount \<times> 10^decimals)\<close>. The handlers compute it in binary floating
  point: \<open>4.1\<close> is read as the nearest binary64 value, which lies below 4.1, the product
  with \<open>10^9\<close> is rounded to \<open>4099999999.9999995\<close>, and its floor is \<open>4099999999\<close>, one
  base unit less than \<open>floor (4.1 \<times> 10^9) = 4100000000\<close>. The same happens when 4.1 of a
  token with 6 decimals is sent.
\<close>

theorem amount_scaling_rounds_in_binary:
  "parseFloat ''4.1'' = Finite (2308094809027379 / 562949953421312)
   \<and> times (parseFloat ''4.1'') (Math_pow10 9) = Finite (8598323199999999 / 2097152)
   \<and> Call (SignTransaction
        \<lparr>instructions =
           [MintTo (PublicKey mintB) (PublicKey (''ata-'' @ walletA)) (PublicKey walletA)
              (Finite 4099999999)],
         recentBlockhash = Some ''blockhash'', feePayer = Some (PublicKey walletA)\<rparr>)
       \<in> set (mintToken env_ok walletA (mint_form mintB 9 [] ''4.1''))
   \<and> \<lfloor>(41 / 10 :: rat) * 10 ^ 9\<rfloor> = 4100000000
   \<and> Call (SignTransaction
        \<lparr>instructions =
           [Transfer (PublicKey (''ata-'' @ walletA)) (PublicKey (''ata-'' @ walletB))
              (PublicKey walletA) (Finite 4099999)],
         recentBlockhash = Some ''blockhash'', feePayer = Some (PublicKey walletA)\<rparr>)
       \<in> set (sendToken env_ok walletA (send_form 6 ''4.1''))
   \<and> \<lfloor>(41 / 10 :: rat) * 10 ^ 6\<rfloor> = 4100000"
proof -
  have "parseFloat ''4.1'' = Finite (2308094809027379 / 562949953421312)"
    by code_simp
  moreover have "times (parseFloat ''4.1'') (Math_pow10 9) = Finite (8598323199999999 / 2097152)"
    by code_simp
  moreover have "Call (SignTransaction
        \<lparr>instructions =
           [MintTo (PublicKey mintB) (PublicKey (''ata-'' @ walletA)) (PublicKey walletA)
              (Finite 4099999999)],
         recentBlockhash = Some ''blockhash'', feePayer = Some (PublicKey walletA)\<rparr>)
       \<in> set (mintToken env_ok walletA (mint_form mintB 9 [] ''4.1''))"
    by code_simp
  moreover have "\<lfloor>(41 / 10 :: rat) * 10 ^ 9\<rfloor> = 4100000000"
    by simp
  moreover have "Call (SignTransaction
        \<lparr>instructions =
           [Transfer (PublicKey (''ata-'' @ walletA)) (PublicKey (''ata-'' @ walletB))
              (PublicKey walletA) (Finite 4099999)],
         recentBlockhash = Some ''blockhash'', feePayer = Some (PublicKey walletA)\<rparr>)
       \<in> set (sendToken env_ok walletA (send_form 6 ''4.1''))"
    by code_simp
  moreover have "\<lfloor>(41 / 10 :: rat) * 10 ^ 6\<rfloor> = 4100000"
    by simp
  ultimately show ?thesis
    by blast
qed

lemma spec_scenarios_scale_exactly:
  "amountToMint (mint_form mintA 6 [] ''2.5'') = Finite 2500000
   \<and> amountToSend (send_form 2 ''3.25'') \<lparr>mint = mintA, balance = Finite 10, decimals = 2, symbol = None\<rparr>
       = Finite 325"
  by code_simp

subsection \<open>The guard of the handlers\<close>

text \<open>
  C2 (amended). A write operation never goes on from validation when a required field is
  empty: the only effect is then the error notification \<open>Please fill in all fields\<close>; no
  collaborator is called and no state is set. (The guard looks at emptiness only: an
  amount that is negative or is no number passes it.)
\<close>

theorem empty_field_stops_at_validation:
  "(tokenMintAddress s = [] \<or> amount s = [] \<longrightarrow>
      mintToken env w s = [ShowNotification error ''Please fill in all fields'']
      \<and> requests (mintToken env w s) = []
      \<and> final_state mint_apply (mintToken env w s) s = s)
   \<and> (selectedToken s' = [] \<or> recipientAddress s' = [] \<or> amount s' = [] \<longrightarrow>
      sendToken env w s' = [ShowNotification error ''Please fill in all fields'']
      \<and> requests (sendToken env w s') = []
      \<and> final_state send_apply (sendToken env w s') s' = s')
   \<and> (tokenName s'' = [] \<or> tokenSymbol s'' = [] \<or> decimals s'' = [] \<longrightarrow>
      createToken env w s'' = [ShowNotification error ''Please fill in all fields'']
      \<and> requests (createToken env w s'') = []
      \<and> final_state create_apply (createToken env w s'') s'' = s'')"
  by (simp add: mintToken_def sendToken_def createToken_def requests_def final_state_def)

theorem empty_field_stops_at_validation_witness:
  "amount (mint_form mintA 6 [] []) = []
   \<and> mintToken env_ok walletA (mint_form mintA 6 [] []) =
       [ShowNotification error ''Please fill in all fields'']
   \<and> requests (mintToken env_ok walletA (mint_form mintA 6 [] [])) = []
   \<and> final_state mint_apply (mintToken env_ok walletA (mint_form mintA 6 [] []))
        (mint_form mintA 6 [] []) = mint_form mintA 6 [] []
   \<and> amount (send_form 2 []) = []
   \<and> sendToken env_ok walletA (send_form 2 []) =
       [ShowNotification error ''Please fill in all fields'']
   \<and> tokenSymbol (create_form ''Demo'' [] ''9'') = []
   \<and> createToken env_ok walletA (create_form ''Demo'' [] ''9'') =
       [ShowNotification error ''Please fill in all fields'']"
proof -
  have m: "amount (mint_form mintA 6 [] []) = []"
    by (simp add: mint_form_def)
  have s: "amount (send_form 2 []) = []"
    by (simp add: send_form_def)
  have c: "tokenSymbol (create_form ''Demo'' [] ''9'') = []"
    by (simp add: create_form_def)
  show ?thesis
    using m s c
      empty_field_stops_at_validation
        [of "mint_form mintA 6 [] []" env_ok walletA "send_form 2 []" "create_form ''Demo'' [] ''9''"]
    by blast
qed

text \<open>
  The claim as it was stated also has a negative amount rejected before anything is
  done. With \<open>-5\<close> in the amount field the mint handler sets the loading flag and asks the
  ledger for the associated token account; the send handler asks for both accounts.
\<close>

theorem negative_amount_passes_validation:
  "parseFloat ''-5'' = Finite (- 5)
   \<and> mintToken env_ok walletA (mint_form mintA 6 [] ''-5'') =
       [SetState (SetIsLoading True),
        Call (GetOrCreateAssociatedTokenAccount (PublicKey walletA) (PublicKey mintA)
                (PublicKey walletA)),
        ConsoleError ''Error minting token:'' ''RangeError'',
        ShowNotification error ''Failed to mint tokens. Make sure you are the mint authority.'',
        SetState (SetIsLoading False)]
   \<and> sendToken env_ok walletA (send_form 6 ''-5'') =
       [SetState (SetSendIsLoading True),
        Call (GetOrCreateAssociatedTokenAccount (PublicKey walletA) (PublicKey mintA)
                (PublicKey walletA)),
        Call (GetOrCreateAssociatedTokenAccount (PublicKey walletA) (PublicKey mintA)
                (PublicKey walletB)),
        ConsoleError ''Error sending token:'' ''RangeError'',
        ShowNotification error
          ''Failed to send tokens. Please check the recipient address and your balance.'',
        SetState (SetSendIsLoading False)]"
  by code_simp

subsection \<open>The recency list\<close>

text \<open>
  C3 (amended). After a successful mint the list of recent mint addresses is the old
  list if the address is already in it (it is not moved), and otherwise the address
  followed by the old list, cut to five entries. So, starting from five distinct entries,
  a sixth address goes to the front and the oldest (last) entry is dropped, the others
  keeping their order; the list never grows beyond five entries and stays free of
  duplicates.
\<close>

theorem recent_tokens_after_successful_mint:
  assumes "ShowNotification success m \<in> set (mintToken env w s)"
  shows "recentTokens (final_state mint_apply (mintToken env w s) s) =
           (if tokenMintAddress s \<in> set (recentTokens s) then recentTokens s
            else take 5 (tokenMintAddress s # recentTokens s))
       \<and> (tokenMintAddress s \<notin> set (recentTokens s) \<and> length (recentTokens s) = 5 \<longrightarrow>
            recentTokens (final_state mint_apply (mintToken env w s) s) =
              tokenMintAddress s # butlast (recentTokens s))
       \<and> (length (recentTokens s) \<le> 5 \<longrightarrow>
            length (recentTokens (final_state mint_apply (mintToken env w s) s)) \<le> 5)
       \<and> (distinct (recentTokens s) \<longrightarrow>
            distinct (recentTokens (final_state mint_apply (mintToken env w s) s)))"
proof -
  let ?r = "recentTokens (final_state mint_apply (mintToken env w s) s)"
  have r: "?r = (if tokenMintAddress s \<in> set (recentTokens s) then recentTokens s
                 else take 5 (tokenMintAddress s # recentTokens s))"
    using assms
    by (auto simp: mint_simps final_state_def split: sum.splits if_splits option.splits)
  have "take 4 (recentTokens s) = butlast (recentTokens s)" if "length (recentTokens s) = 5"
    using that by (simp add: butlast_conv_take)
  moreover have "distinct (take 4 (recentTokens s))" if "distinct (recentTokens s)"
    using that by simp
  moreover have "tokenMintAddress s \<notin> set (take 4 (recentTokens s))"
    if "tokenMintAddress s \<notin> set (recentTokens s)"
    using that by (meson in_set_takeD)
  ultimately show ?thesis
    using r by simp
qed

theorem recent_tokens_after_successful_mint_witness:
  "ShowNotification success ''Successfully minted 1 tokens!''
     \<in> set (mintToken env_ok walletA (mint_form mintF 9 five_tokens ''1''))
   \<and> mintF \<notin> set five_tokens \<and> length five_tokens = 5 \<and> distinct five_tokens
   \<and> recentTokens (final_state mint_apply
        (mintToken env_ok walletA (mint_form mintF 9 five_tokens ''1''))
        (mint_form mintF 9 five_tokens ''1'')) = [mintF, mintA, mintB, mintC, mintD]"
proof -
  have n: "amountToMint (mint_form mintF 9 five_tokens ''1'') = Finite 1000000000"
    by code_simp
  have f: "mintF \<notin> set five_tokens \<and> length five_tokens = 5 \<and> distinct five_tokens"
    using mints_distinct by (auto simp: five_tokens_def)
  have h: "ShowNotification success ''Successfully minted 1 tokens!''
     \<in> set (mintToken env_ok walletA (mint_form mintF 9 five_tokens ''1''))"
    using f by (simp add: mint_simps example_simps n)
  have g: "tokenMintAddress (mint_form mintF 9 five_tokens ''1'')
             \<notin> set (recentTokens (mint_form mintF 9 five_tokens ''1''))
           \<and> length (recentTokens (mint_form mintF 9 five_tokens ''1'')) = 5"
    using f by (simp add: example_simps)
  have "recentTokens (final_state mint_apply
        (mintToken env_ok walletA (mint_form mintF 9 five_tokens ''1''))
        (mint_form mintF 9 five_tokens ''1'')) =
          tokenMintAddress (mint_form mintF 9 five_tokens ''1'') #
          butlast (recentTokens (mint_form mintF 9 five_tokens ''1''))"
    using recent_tokens_after_successful_mint [OF h] g by blast
  then have "recentTokens (final_state mint_apply
        (mintToken env_ok walletA (mint_form mintF 9 five_tokens ''1''))
        (mint_form mintF 9 five_tokens ''1'')) = [mintF, mintA, mintB, mintC, mintD]"
    by (simp add: example_simps five_tokens_def)
  then show ?thesis
    using h f by blast
qed

text \<open>
  The claim as it was stated has an address that is already in the list moved to the
  front. A successful mint of the third of five recent tokens leaves the list as it was.
\<close>

theorem repeated_mint_address_stays_in_place:
  "ShowNotification success ''Successfully minted 1 tokens!''
     \<in> set (mintToken env_ok walletA (mint_form mintC 9 five_tokens ''1''))
   \<and> recentTokens (final_state mint_apply
        (mintToken env_ok walletA (mint_form mintC 9 five_tokens ''1''))
        (mint_form mintC 9 five_tokens ''1'')) = [mintA, mintB, mintC, mintD, mintE]
   \<and> [mintA, mintB, mintC, mintD, mintE] \<noteq> [mintC, mintA, mintB, mintD, mintE]"
proof -
  have n: "amountToMint (mint_form mintC 9 five_tokens ''1'') = Finite 1000000000"
    by code_simp
  have f: "mintC \<in> set five_tokens"
    by (simp add: five_tokens_def)
  have "mintToken env_ok walletA (mint_form mintC 9 five_tokens ''1'') =
      [SetState (SetIsLoading True),
       Call (GetOrCreateAssociatedTokenAccount (PublicKey walletA) (PublicKey mintC)
               (PublicKey walletA)),
       Call GetLatestBlockhash,
       Call (SignTransaction
         \<lparr>instructions =
            [MintTo (PublicKey mintC) (PublicKey (''ata-'' @ walletA)) (PublicKey walletA)
               (Finite 1000000000)],
          recentBlockhash = Some ''blockhash'', feePayer = Some (PublicKey walletA)\<rparr>),
       Call (SendRawTransaction ''bytes''),
       Call (ConfirmTransaction ''signature''),
       ShowNotification success ''Successfully minted 1 tokens!'',
       SetState (SetAmount []),
       SetState (SetIsLoading False)]"
    using f by (simp add: mint_simps example_simps n)
  moreover have "mintA \<noteq> mintC"
    using mints_distinct by simp
  ultimately show ?thesis
    by (simp add: final_state_def example_simps five_tokens_def)
qed

subsection \<open>A signature that is refused\<close>

text \<open>
  C4. When the wallet refuses the signature that the mint or the send handler asks for,
  nothing is sent to the ledger and the form is as it was, with the loading flag off:
  in particular the recent tokens are unchanged.
\<close>

theorem signing_rejected_returns_to_idle:
  "(Call (SignTransaction tx) \<in> set (mintToken env w s) \<and> signTransaction env tx = Inl e \<longrightarrow>
      (\<forall>raw. Call (SendRawTransaction raw) \<notin> set (mintToken env w s))
      \<and> final_state mint_apply (mintToken env w s) s = s\<lparr>isLoading := False\<rparr>
      \<and> recentTokens (final_state mint_apply (mintToken env w s) s) = recentTokens s)
   \<and> (Call (SignTransaction tx') \<in> set (sendToken env w s') \<and> signTransaction env tx' = Inl e' \<longrightarrow>
      (\<forall>raw. Call (SendRawTransaction raw) \<notin> set (sendToken env w s'))
      \<and> final_state send_apply (sendToken env w s') s' = s'\<lparr>isLoading := False\<rparr>)"
proof -
  have "(\<forall>raw. Call (SendRawTransaction raw) \<notin> set (mintToken env w s))
      \<and> final_state mint_apply (mintToken env w s) s = s\<lparr>isLoading := False\<rparr>"
    if "Call (SignTransaction tx) \<in> set (mintToken env w s)" "signTransaction env tx = Inl e"
    using that
    by (auto simp: mint_simps final_state_def split: sum.splits if_splits option.splits)
  moreover have "(\<forall>raw. Call (SendRawTransaction raw) \<notin> set (sendToken env w s'))
      \<and> final_state send_apply (sendToken env w s') s' = s'\<lparr>isLoading := False\<rparr>"
    if "Call (SignTransaction tx') \<in> set (sendToken env w s')" "signTransaction env tx' = Inl e'"
    using that
    by (auto simp: send_simps final_state_def split: sum.splits if_splits option.splits)
  ultimately show ?thesis
    by simp
qed

theorem signing_rejected_returns_to_idle_witness:
  "Call (SignTransaction
      \<lparr>instructions =
         [MintTo (PublicKey mintA) (PublicKey (''ata-'' @ walletA)) (PublicKey walletA)
            (Finite 2500000)],
       recentBlockhash = Some ''blockhash'', feePayer = Some (PublicKey walletA)\<rparr>)
     \<in> set (mintToken env_rejecting walletA (mint_form mintA 6 five_tokens ''2.5''))
   \<and> (\<forall>raw. Call (SendRawTransaction raw)
         \<notin> set (mintToken env_rejecting walletA (mint_form mintA 6 five_tokens ''2.5'')))
   \<and> final_state mint_apply
        (mintToken env_rejecting walletA (mint_form mintA 6 five_tokens ''2.5''))
        (mint_form mintA 6 five_tokens ''2.5'') = mint_form mintA 6 five_tokens ''2.5''
   \<and> Call (SignTransaction
      \<lparr>instructions =
         [Transfer (PublicKey (''ata-'' @ walletA)) (PublicKey (''ata-'' @ walletB))
            (PublicKey walletA) (Finite 325)],
       recentBlockhash = Some ''blockhash'', feePayer = Some (PublicKey walletA)\<rparr>)
     \<in> set (sendToken env_rejecting walletA (send_form 2 ''3.25''))
   \<and> (\<forall>raw. Call (SendRawTransaction raw)
         \<notin> set (sendToken env_rejecting walletA (send_form 2 ''3.25'')))
   \<and> final_state send_apply (sendToken env_rejecting walletA (send_form 2 ''3.25''))
        (send_form 2 ''3.25'') = send_form 2 ''3.25''"
proof -
  let ?mtx = "\<lparr>instructions =
         [MintTo (PublicKey mintA) (PublicKey (''ata-'' @ walletA)) (PublicKey walletA)
            (Finite 2500000)],
       recentBlockhash = Some ''blockhash'', feePayer = Some (PublicKey walletA)\<rparr>"
  let ?stx = "\<lparr>instructions =
         [Transfer (PublicKey (''ata-'' @ walletA)) (PublicKey (''ata-'' @ walletB))
            (PublicKey walletA) (Finite 325)],
       recentBlockhash = Some ''blockhash'', feePayer = Some (PublicKey walletA)\<rparr>"
  have nm: "amountToMint (mint_form mintA 6 five_tokens ''2.5'') = Finite 2500000"
    by code_simp
  have ns: "amountToSend (send_form 2 ''3.25'')
      \<lparr>mint = mintA, balance = Finite 10, decimals = 2, symbol = None\<rparr> = Finite 325"
    by code_simp
  have hm: "Call (SignTransaction ?mtx)
     \<in> set (mintToken env_rejecting walletA (mint_form mintA 6 five_tokens ''2.5''))"
    by (simp add: mint_simps env_rejecting_def example_simps nm)
  have hs: "Call (SignTransaction ?stx)
     \<in> set (sendToken env_rejecting walletA (send_form 2 ''3.25''))"
    by (simp add: send_simps env_rejecting_def example_simps ns)
  have r: "signTransaction env_rejecting ?mtx = Inl ''User rejected the request.''"
          "signTransaction env_rejecting ?stx = Inl ''User rejected the request.''"
    by (simp_all add: env_rejecting_def)
  have im: "mint_form mintA 6 five_tokens ''2.5''\<lparr>isLoading := False\<rparr> =
      mint_form mintA 6 five_tokens ''2.5''"
    by (simp add: example_simps)
  have isd: "send_form 2 ''3.25''\<lparr>isLoading := False\<rparr> = send_form 2 ''3.25''"
    by (simp add: example_simps)
  show ?thesis
    using signing_rejected_returns_to_idle
      [of ?mtx env_rejecting walletA "mint_form mintA 6 five_tokens ''2.5''"
          "''User rejected the request.''" ?stx "send_form 2 ''3.25''"
          "''User rejected the request.''"]
      hm hs r im isd
    by simp
qed

subsection \<open>The decimals of the mint form\<close>

lemma enterMintAddress_decimals:
  "tokenDecimals (enterMintAddress env a s) =
     (if length a < 32 then tokenDecimals s
      else case newPublicKey env a of
             Inl _ \<Rightarrow> tokenDecimals s
           | Inr key \<Rightarrow> (case getMint env key of Inl _ \<Rightarrow> tokenDecimals s | Inr d \<Rightarrow> d))"
  by (auto simp: enterMintAddress_def fetchTokenDecimals_def io_simps final_state_def
        split: sum.splits)

lemma first_lookup_defaults_to_9:
  "tokenDecimals (enterMintAddress env a mint_initial) =
     (if length a < 32 then 9
      else case newPublicKey env a of
             Inl _ \<Rightarrow> 9
           | Inr key \<Rightarrow> (case getMint env key of Inl _ \<Rightarrow> 9 | Inr d \<Rightarrow> d))"
  by (simp add: enterMintAddress_decimals mint_initial_def split: sum.splits)

text \<open>
  C5. The decimals used to scale a mint are to be those of the mint's metadata, and 9
  whenever the lookup fails or the address is not complete. That is so for the first
  address entered (\<open>first_lookup_defaults_to_9\<close>), but a failed or skipped lookup keeps
  the decimals of the address entered before: after \<open>mintA\<close> (6 decimals) has been looked
  up, entering \<open>mintB\<close>, for which the lookup fails, or a short prefix, leaves 6 decimals
  in place, and an amount of 1 is scaled to \<open>10^6\<close> base units, not \<open>10^9\<close>.
\<close>

theorem token_decimals_kept_after_failed_lookup:
  "tokenDecimals (enterMintAddress env_ok mintA mint_initial) = 6
   \<and> getMint env_ok (PublicKey mintB) = Inl ''TokenAccountNotFoundError''
   \<and> tokenDecimals (enterMintAddress env_ok mintB (enterMintAddress env_ok mintA mint_initial)) = 6
   \<and> tokenDecimals (enterMintAddress env_ok ''EPjF'' (enterMintAddress env_ok mintA mint_initial)) = 6
   \<and> amountToMint
        ((enterMintAddress env_ok mintB (enterMintAddress env_ok mintA mint_initial))
           \<lparr>amount := ''1''\<rparr>) = Finite 1000000"
proof -
  have l: "\<not> length mintA < 32" "\<not> length mintB < 32"
    by (simp_all add: mintA_def mintB_def)
  have ne: "mintB \<noteq> mintA"
    using mints_distinct by auto
  have a: "tokenDecimals (enterMintAddress env_ok mintA mint_initial) = 6"
    using l by (simp add: enterMintAddress_decimals env_ok_fields)
  have b: "tokenDecimals (enterMintAddress env_ok mintB (enterMintAddress env_ok mintA mint_initial)) = 6"
    using l ne a by (simp add: enterMintAddress_decimals [of env_ok mintB] env_ok_fields)
  have c: "tokenDecimals (enterMintAddress env_ok ''EPjF'' (enterMintAddress env_ok mintA mint_initial)) = 6"
    using a by (simp add: enterMintAddress_decimals [of env_ok "''EPjF''"])
  have n: "Math_floor (times (parseFloat ''1'') (Math_pow10 6)) = Finite 1000000"
    by code_simp
  have d: "amountToMint
        ((enterMintAddress env_ok mintB (enterMintAddress env_ok mintA mint_initial))
           \<lparr>amount := ''1''\<rparr>) = Finite 1000000"
    using b n by (simp add: amountToMint_def)
  show ?thesis
    using a b c d ne by (simp add: env_ok_fields)
qed

subsection \<open>Failures\<close>









text \<open>
  What \<open>confirmTransaction\<close> resolves to is not a throw, and the handlers do not look at
  it: the effects of a run are the same whatever error the ledger reports there, and a
  transaction that the ledger reports as failed ends in the success notification.
\<close>

lemma confirmation_value_is_not_inspected:
  "mintToken (env\<lparr>confirmTransaction :=
       \<lambda>sg. case confirmTransaction env sg of Inl x \<Rightarrow> Inl x | Inr _ \<Rightarrow> Inr None\<rparr>) w s =
     mintToken env w s"
  "sendToken (env\<lparr>confirmTransaction :=
       \<lambda>sg. case confirmTransaction env sg of Inl x \<Rightarrow> Inl x | Inr _ \<Rightarrow> Inr None\<rparr>) w s' =
     sendToken env w s'"
  by (simp_all add: mint_simps send_simps split: sum.splits option.splits)

lemma ledger_reported_failure_shows_success:
  "confirmTransaction env_failed_on_chain ''signature'' = Inr (Some ErrorObject)
   \<and> notifications (mintToken env_failed_on_chain walletA (mint_form mintA 6 [] ''2.5'')) =
       [(success, ''Successfully minted 2.5 tokens!'')]
   \<and> notifications (sendToken env_failed_on_chain walletA (send_form 2 ''3.25'')) =
       [(success, ''Successfully sent 3.25 tokens!'')]"
proof -
  have nm: "amountToMint (mint_form mintA 6 [] ''2.5'') = Finite 2500000"
    by code_simp
  have ns: "amountToSend (send_form 2 ''3.25'')
      \<lparr>mint = mintA, balance = Finite 10, decimals = 2, symbol = None\<rparr> = Finite 325"
    by code_simp
  show ?thesis
    by (simp add: mint_simps send_simps notifications_def env_failed_on_chain_def
          example_simps nm ns)
qed

subsection \<open>Disconnecting\<close>

text \<open>
  C8 (amended). \<open>disconnectWallet\<close> asks the provider, when there is one, to disconnect.
  If that call returns, or there is no provider, the session address is reset to absent
  and a success notification is shown. If the call throws, the error is logged, the error
  notification \<open>Failed to disconnect wallet\<close> is shown and the session address is left
  as it was.
\<close>

theorem disconnectWallet_outcomes:
  "(windowSolana env \<and> disconnect env = Some e \<longrightarrow>
      requests (disconnectWallet env) = [Disconnect]
      \<and> ConsoleError ''Error disconnecting wallet:'' e \<in> set (disconnectWallet env)
      \<and> notifications (disconnectWallet env) = [(error, ''Failed to disconnect wallet'')]
      \<and> final_state wallet_apply (disconnectWallet env) a = a)
   \<and> (windowSolana env \<and> disconnect env = None \<longrightarrow>
      requests (disconnectWallet env) = [Disconnect]
      \<and> notifications (disconnectWallet env) = [(success, ''Wallet disconnected'')]
      \<and> final_state wallet_apply (disconnectWallet env) a = None)
   \<and> (\<not> windowSolana env \<longrightarrow>
      requests (disconnectWallet env) = []
      \<and> notifications (disconnectWallet env) = [(success, ''Wallet disconnected'')]
      \<and> final_state wallet_apply (disconnectWallet env) a = None)"
  by (simp add: disconnectWallet_def io_simps requests_def notifications_def final_state_def)

theorem disconnectWallet_outcomes_witness:
  "windowSolana env_disconnect_fails
   \<and> disconnect env_disconnect_fails = Some ''provider error''
   \<and> notifications (disconnectWallet env_disconnect_fails) =
       [(error, ''Failed to disconnect wallet'')]
   \<and> final_state wallet_apply (disconnectWallet env_disconnect_fails) (Some walletA) =
       Some walletA
   \<and> windowSolana env_ok \<and> disconnect env_ok = None
   \<and> notifications (disconnectWallet env_ok) = [(success, ''Wallet disconnected'')]
   \<and> final_state wallet_apply (disconnectWallet env_ok) (Some walletA) = None
   \<and> \<not> windowSolana (env_ok\<lparr>windowSolana := False\<rparr>)
   \<and> final_state wallet_apply (disconnectWallet (env_ok\<lparr>windowSolana := False\<rparr>))
        (Some walletA) = None"
proof -
  have f: "windowSolana env_disconnect_fails
           \<and> disconnect env_disconnect_fails = Some ''provider error''"
    by (simp add: env_disconnect_fails_def env_ok_fields)
  have k: "windowSolana env_ok \<and> disconnect env_ok = None"
    by (simp add: env_ok_fields)
  have n: "\<not> windowSolana (env_ok\<lparr>windowSolana := False\<rparr>)"
    by simp
  show ?thesis
    using f k n
      disconnectWallet_outcomes [of env_disconnect_fails "''provider error''" "Some walletA"]
      disconnectWallet_outcomes [of env_ok "''provider error''" "Some walletA"]
      disconnectWallet_outcomes
        [of "env_ok\<lparr>windowSolana := False\<rparr>" "''provider error''" "Some walletA"]
    by blast
qed

text \<open>
  The claim as it was stated has the session cleared and no failure shown also when the
  provider's disconnect fails. When the call throws, the address stays and the failure
  is shown.
\<close>

theorem disconnect_failure_keeps_session:
  "disconnectWallet env_disconnect_fails =
     [Call Disconnect,
      ConsoleError ''Error disconnecting wallet:'' ''provider error'',
      ShowNotification error ''Failed to disconnect wallet'']
   \<and> final_state wallet_apply (disconnectWallet env_disconnect_fails) (Some walletA) =
       Some walletA
   \<and> Some walletA \<noteq> None"
  by (simp add: disconnectWallet_def io_simps final_state_def env_disconnect_fails_def
        env_ok_fields)

subsection \<open>Creating a token\<close>

text \<open>
  C9 (amended). With a name and a symbol filled in and a decimals field that reads as
  the number \<open>d\<close>, the Create operation makes one request, to create the mint with
  precision \<open>d\<close> and the session address as payer, as mint authority and as freeze
  authority, for a freshly generated mint identity (the transaction with its
  initialize-mint instruction is built inside the token library). When the request
  succeeds, the address of the new mint is stored in \<open>createdTokenMint\<close>, from where it
  is displayed, and the success notification is the fixed text
  \<open>Token created successfully!\<close>.
\<close>

theorem createToken_request_and_success:
  assumes "tokenName s \<noteq> []" and "tokenSymbol s \<noteq> []"
      and "parseInt (decimals s) = Finite (of_nat d)"
      and "newPublicKey env w = Inr session"
  shows "requests (createToken env w s) =
           [CreateMint session session session (Finite (of_nat d)) (keypairGenerate env)]
       \<and> (createMint env session session session (Finite (of_nat d)) (keypairGenerate env) =
            Inr newMint \<longrightarrow>
          notifications (createToken env w s) = [(success, ''Token created successfully!'')]
          \<and> createdTokenMint (final_state create_apply (createToken env w s) s) =
              Some (toString newMint))"
proof -
  have "decimals s \<noteq> []"
    using assms(3) by (auto simp: parseInt_def)
  then show ?thesis
    using assms
    by (auto simp: create_simps requests_def notifications_def final_state_def
          split: sum.splits)
qed

lemma parseInt_digit:
  "parseInt ''0'' = Finite 0" "parseInt ''1'' = Finite 1" "parseInt ''2'' = Finite 2"
  "parseInt ''3'' = Finite 3" "parseInt ''4'' = Finite 4" "parseInt ''5'' = Finite 5"
  "parseInt ''6'' = Finite 6" "parseInt ''7'' = Finite 7" "parseInt ''8'' = Finite 8"
  "parseInt ''9'' = Finite 9"
  by code_simp+

theorem createToken_request_and_success_witness:
  "parseInt (decimals (create_form ''Demo'' ''DMO'' ''9'')) = Finite (of_nat 9)
   \<and> requests (createToken env_ok walletA (create_form ''Demo'' ''DMO'' ''9'')) =
       [CreateMint (PublicKey walletA) (PublicKey walletA) (PublicKey walletA) (Finite 9)
          (PublicKey mintB)]
   \<and> notifications (createToken env_ok walletA (create_form ''Demo'' ''DMO'' ''9'')) =
       [(success, ''Token created successfully!'')]
   \<and> createdTokenMint (final_state create_apply
        (createToken env_ok walletA (create_form ''Demo'' ''DMO'' ''9''))
        (create_form ''Demo'' ''DMO'' ''9'')) = Some mintB"
proof -
  have p: "parseInt (decimals (create_form ''Demo'' ''DMO'' ''9'')) = Finite (of_nat 9)"
    by (simp add: create_form_fields parseInt_digit)
  have a: "tokenName (create_form ''Demo'' ''DMO'' ''9'') \<noteq> []"
          "tokenSymbol (create_form ''Demo'' ''DMO'' ''9'') \<noteq> []"
    by (simp_all add: create_form_fields)
  have k: "newPublicKey env_ok walletA = Inr (PublicKey walletA)"
    by (simp add: env_ok_fields)
  have c: "createMint env_ok (PublicKey walletA) (PublicKey walletA) (PublicKey walletA)
             (Finite (of_nat 9)) (keypairGenerate env_ok) = Inr (PublicKey mintB)"
    by (simp add: env_ok_fields)
  show ?thesis
    using createToken_request_and_success [OF a p k, of "PublicKey mintB"] p c
    by (simp add: env_ok_fields)
qed

text \<open>
  The claim as it was stated has the success notification contain the address of the new
  mint. For the scenario of the specification the notification is the fixed text, in
  which the address does not occur.
\<close>

theorem create_success_message_without_address:
  "notifications (createToken env_ok walletA (create_form ''Demo'' ''DMO'' ''9'')) =
     [(success, ''Token created successfully!'')]
   \<and> createdTokenMint (final_state create_apply
        (createToken env_ok walletA (create_form ''Demo'' ''DMO'' ''9''))
        (create_form ''Demo'' ''DMO'' ''9'')) = Some mintB
   \<and> \<not> sublist mintB ''Token created successfully!''"
proof -
  have "\<not> length mintB \<le> length ''Token created successfully!''"
    by (simp add: mintB_def)
  then have "\<not> sublist mintB ''Token created successfully!''"
    using sublist_length_le by blast
  moreover have "createToken env_ok walletA (create_form ''Demo'' ''DMO'' ''9'') =
      [SetState (SetCreateIsLoading True),
       Call (CreateMint (PublicKey walletA) (PublicKey walletA) (PublicKey walletA) (Finite 9)
               (PublicKey mintB)),
       SetState (SetCreatedTokenMint (Some mintB)),
       ShowNotification success ''Token created successfully!'',
       SetState (SetCreateIsLoading False)]"
    by (simp add: create_simps example_simps parseInt_digit)
  ultimately show ?thesis
    by (simp add: notifications_def final_state_def)
qed

subsection \<open>The transaction history\<close>

lemma sequence_map_Inr:
  "sequence (map f xs) = Inr ys \<Longrightarrow>
     length ys = length xs \<and> (\<forall>i<length xs. f (xs ! i) = Inr (ys ! i))"
proof (induction xs arbitrary: ys)
  case Nil
  then show ?case by simp
next
  case (Cons x xs)
  from Cons.prems obtain y zs where y: "f x = Inr y" and zs: "sequence (map f xs) = Inr zs"
    and ys: "ys = y # zs"
    by (cases "f x"; cases "sequence (map f xs)") auto
  from Cons.IH [OF zs] have ih: "length zs = length xs" "\<forall>i<length xs. f (xs ! i) = Inr (zs ! i)"
    by simp_all
  show ?case
  proof (intro conjI allI impI)
    show "length ys = length (x # xs)"
      using ys ih by simp
  next
    fix i assume "i < length (x # xs)"
    then show "f ((x # xs) ! i) = Inr (ys ! i)"
      using y ys ih by (cases i) simp_all
  qed
qed

lemma fetched_transactions:
  assumes "SetState (SetTransactions txs) \<in> set (fetchTransactions env l w)"
      and "newPublicKey env w = Inr pk"
      and "getSignaturesForAddress l pk 10 = Inr sigs"
  shows "sequence (map (\<lambda>sig. case getParsedTransaction l (sig_signature sig) of
                                  Inl e \<Rightarrow> Inl e
                                | Inr tx \<Rightarrow> Inr (toTransaction sig tx)) sigs) = Inr txs"
  using assms
  by (auto simp: fetchTransactions_def fetchTransactions_try_def io_simps try_bind_pair
        split: if_splits sum.splits)

text \<open>
  C6 (amended). The history reader asks the ledger for at most 10 signatures and, when
  every transaction can be fetched, shows one entry for each signature, in the order of
  the ledger. An entry is classified \<open>Token\<close> when the ledger returned the transaction
  with its metadata and one of its instructions names the token program; otherwise
  \<open>SOL Transfer\<close> when the transaction came with its metadata and one of its instructions
  names the system program; otherwise \<open>Unknown\<close> (so also when the transaction or its
  metadata is missing). Its status is \<open>failed\<close> exactly when the error field of the
  signature is present (and not an empty string), and \<open>confirmed\<close> otherwise.
\<close>

theorem history_entries_classified:
  assumes "SetState (SetTransactions txs) \<in> set (fetchTransactions env l w)"
      and "newPublicKey env w = Inr pk"
      and "getSignaturesForAddress l pk 10 = Inr sigs"
      and "i < length sigs"
  shows "length txs = length sigs
       \<and> signature (txs ! i) = sig_signature (sigs ! i)
       \<and> (status (txs ! i) = failed) = truthy (sig_err (sigs ! i))
       \<and> (status (txs ! i) = confirmed) = (\<not> truthy (sig_err (sigs ! i)))
       \<and> (\<exists>tx. getParsedTransaction l (sig_signature (sigs ! i)) = Inr tx
             \<and> type (txs ! i) =
                 (if has_meta tx \<and> has_instruction_of token_program tx then ''Token''
                  else if has_meta tx \<and> has_instruction_of system_program tx
                  then ''SOL Transfer''
                  else ''Unknown''))"
proof -
  let ?f = "\<lambda>sig. case getParsedTransaction l (sig_signature sig) of
                     Inl e \<Rightarrow> Inl e
                   | Inr tx \<Rightarrow> Inr (toTransaction sig tx)"
  have "sequence (map ?f sigs) = Inr txs"
    using assms(1-3) by (rule fetched_transactions)
  then have len: "length txs = length sigs" and "?f (sigs ! i) = Inr (txs ! i)"
    using sequence_map_Inr [of ?f sigs txs] assms(4) by simp_all
  then obtain tx where tx: "getParsedTransaction l (sig_signature (sigs ! i)) = Inr tx"
    and t: "txs ! i = toTransaction (sigs ! i) tx"
    by (cases "getParsedTransaction l (sig_signature (sigs ! i))") auto
  have "type (toTransaction (sigs ! i) tx) =
          (if has_meta tx \<and> has_instruction_of token_program tx then ''Token''
           else if has_meta tx \<and> has_instruction_of system_program tx then ''SOL Transfer''
           else ''Unknown'')"
    by (auto simp: toTransaction_def transactionType_def has_meta_def has_instruction_of_def
          token_program_def system_program_def split: option.splits)
  then show ?thesis
    using len tx t by (auto simp: toTransaction_def)
qed

theorem history_entries_classified_witness:
  "SetState (SetTransactions
      [\<lparr>signature = ''sig-1'', blockTime = 1700000000, slot = 2, type = ''Token'',
        status = failed\<rparr>,
       \<lparr>signature = ''sig-2'', blockTime = 0, slot = 1, type = ''Unknown'',
        status = confirmed\<rparr>]) \<in> set (fetchTransactions env_ok ledger_two walletA)
   \<and> status ([\<lparr>signature = ''sig-1'', blockTime = 1700000000, slot = 2, type = ''Token'',
        status = failed\<rparr>,
       \<lparr>signature = ''sig-2'', blockTime = 0, slot = 1, type = ''Unknown'',
        status = confirmed\<rparr>] ! 0) = failed
   \<and> truthy (sig_err
        ([\<lparr>sig_signature = ''sig-1'', sig_blockTime = Some 1700000000, sig_slot = 2,
           sig_err = Some ErrorObject\<rparr>,
          \<lparr>sig_signature = ''sig-2'', sig_blockTime = None, sig_slot = 1, sig_err = None\<rparr>]
         ! 0))"
proof -
  let ?txs = "[\<lparr>signature = ''sig-1'', blockTime = 1700000000, slot = 2, type = ''Token'',
        status = failed\<rparr>,
       \<lparr>signature = ''sig-2'', blockTime = 0, slot = 1, type = ''Unknown'',
        status = confirmed\<rparr>]"
  let ?sigs = "[\<lparr>sig_signature = ''sig-1'', sig_blockTime = Some 1700000000, sig_slot = 2,
           sig_err = Some ErrorObject\<rparr>,
          \<lparr>sig_signature = ''sig-2'', sig_blockTime = None, sig_slot = 1, sig_err = None\<rparr>]"
  have h: "SetState (SetTransactions ?txs) \<in> set (fetchTransactions env_ok ledger_two walletA)"
    by (simp add: fetchTransactions_def fetchTransactions_try_def io_simps try_bind_pair
          example_simps ledger_two_def toTransaction_def transactionType_def
          token_program_def system_program_def)
  have k: "newPublicKey env_ok walletA = Inr (PublicKey walletA)"
    by (simp add: env_ok_fields)
  have g: "getSignaturesForAddress ledger_two (PublicKey walletA) 10 = Inr ?sigs"
    by (simp add: ledger_two_def)
  have i: "0 < length ?sigs"
    by simp
  have "(status (?txs ! 0) = failed) = truthy (sig_err (?sigs ! 0))"
    using history_entries_classified [OF h k g i] by blast
  then show ?thesis
    using h by simp
qed

text \<open>
  The claim as it was stated has every transaction with a token-program instruction
  classified \<open>Token\<close>. The second transaction of \<open>ledger_two\<close> has one, but came without
  metadata: its entry is \<open>Unknown\<close>.
\<close>

theorem token_instruction_without_meta_is_unknown:
  "getParsedTransaction ledger_two ''sig-2'' =
     Inr (Some \<lparr>meta = False, message_instructions = [\<lparr>programId = Some token_program\<rparr>]\<rparr>)
   \<and> has_instruction_of token_program
       (Some \<lparr>meta = False, message_instructions = [\<lparr>programId = Some token_program\<rparr>]\<rparr>)
   \<and> fetchTransactions env_ok ledger_two walletA =
       [SetState (SetHistoryIsLoading True),
        Call (GetSignaturesForAddress (PublicKey walletA) 10),
        Call (GetParsedTransaction ''sig-1''),
        Call (GetParsedTransaction ''sig-2''),
        SetState (SetTransactions
          [\<lparr>signature = ''sig-1'', blockTime = 1700000000, slot = 2, type = ''Token'',
            status = failed\<rparr>,
           \<lparr>signature = ''sig-2'', blockTime = 0, slot = 1, type = ''Unknown'',
            status = confirmed\<rparr>]),
        SetState (SetHistoryIsLoading False)]"
  by (simp add: fetchTransactions_def fetchTransactions_try_def io_simps try_bind_pair
        example_simps ledger_two_def toTransaction_def transactionType_def
        has_instruction_of_def token_program_def system_program_def)


end
